theory Spec2Isabelle
  imports Main
begin

section \<open>Python values used by xlap.py\<close>

text \<open>
  The exceptions the modelled code can raise: \<open>OverflowError\<close> when an \<open>int\<close> is too
  large to become a \<open>float\<close>, \<open>IndexError\<close> from \<open>LAYOUT_SEQUENCE[i]\<close>, and
  \<open>ValueError\<close> from \<open>list.index\<close>.
\<close>

datatype py_error = OverflowError | IndexError | ValueError

subsection \<open>Floats\<close>

text \<open>
  Python's \<open>float\<close> is IEEE 754 binary64. A finite float is modelled exactly, as
  \<open>mantissa * 2 ^ exponent\<close> with an integer mantissa of at most 53 bits. The layout
  factors are produced by float literals and by \<open>1 / 3\<close>, \<open>2 / 3\<close>; the only
  arithmetic the program does on them is \<open>int(n * f)\<close> for an integer \<open>n\<close>. Every
  operation rounds its exact result to 53 significant bits, ties to even.
  Infinities, NaN and subnormal numbers are not represented: the factors lie in
  \<open>[0, 1]\<close> and the other operand is an integer that passed the conversion to
  \<open>float\<close>, so a product is either zero or of magnitude between \<open>2 ^ -2\<close> and the
  largest finite float.
\<close>

datatype pyfloat = PyFloat (mantissa: int) (exponent: int)

text \<open>\<open>int.bit_length\<close> on a natural number.\<close>

fun bit_length :: "nat \<Rightarrow> nat" where
  "bit_length n = (if n = 0 then 0 else Suc (bit_length (n div 2)))"

declare bit_length.simps [simp del]

text \<open>\<open>a / 2 ^ s\<close> rounded to the nearest integer, a tie going to the even neighbour.\<close>

definition round_half_even :: "nat \<Rightarrow> nat \<Rightarrow> nat" where
  "round_half_even a s =
     (let q = a div 2 ^ s; r = a mod 2 ^ s
      in if 2 * r < 2 ^ s then q
         else if 2 ^ s < 2 * r then q + 1
         else if even q then q else q + 1)"

text \<open>The exact value \<open>a * 2 ^ e\<close> rounded to a float of 53 significant bits.\<close>

definition round53 :: "int \<Rightarrow> int \<Rightarrow> pyfloat" where
  "round53 a e =
     (let s = bit_length (nat \<bar>a\<bar>) - 53
      in PyFloat (sgn a * int (round_half_even (nat \<bar>a\<bar>) s)) (e + int s))"

text \<open>
  \<open>float(n)\<close> for an \<open>int\<close>, as the coercion of \<open>n * f\<close> does it: correctly rounded,
  \<open>OverflowError\<close> when the rounded value does not fit the exponent range.
\<close>

definition float_of_int :: "int \<Rightarrow> py_error + pyfloat" where
  "float_of_int n =
     (case round53 n 0 of
        PyFloat m e \<Rightarrow>
          if 2 ^ 1024 \<le> \<bar>m\<bar> * 2 ^ nat e then Inl OverflowError else Inr (PyFloat m e))"

text \<open>\<open>x * y\<close> on floats.\<close>

definition float_mul :: "pyfloat \<Rightarrow> pyfloat \<Rightarrow> pyfloat" where
  "float_mul x y = round53 (mantissa x * mantissa y) (exponent x + exponent y)"

text \<open>\<open>int(x)\<close> on a float: truncation towards zero.\<close>

definition int_of_float :: "pyfloat \<Rightarrow> int" where
  "int_of_float x =
     (if 0 \<le> exponent x then mantissa x * 2 ^ nat (exponent x)
      else sgn (mantissa x) * (\<bar>mantissa x\<bar> div 2 ^ nat (- exponent x)))"

text \<open>The expression \<open>int(n * f)\<close> with \<open>n\<close> an \<open>int\<close> and \<open>f\<close> a \<open>float\<close>.\<close>

definition int_times_float :: "int \<Rightarrow> pyfloat \<Rightarrow> py_error + int" where
  "int_times_float n f =
     (case float_of_int n of
        Inl err \<Rightarrow> Inl err
      | Inr x \<Rightarrow> Inr (int_of_float (float_mul x f)))"

text \<open>
  \<open>a / b\<close> on positive \<open>int\<close>s (true division), correctly rounded: the quotient is
  taken with at least 55 bits, a non-zero remainder is kept as a sticky last bit, and
  the result is rounded to 53 bits.
\<close>

definition int_truediv :: "nat \<Rightarrow> nat \<Rightarrow> pyfloat" where
  "int_truediv a b =
     (let k = 55 + bit_length b - bit_length a;
          q = (a * 2 ^ k) div b;
          sticky = (if (a * 2 ^ k) mod b = 0 then 0 else 1)
      in round53 (int (2 * q + sticky)) (- int (k + 1)))"

section \<open>Configuration\<close>

record config =
  window_margin_top :: int
  window_margin_left :: int
  screen_margin_bottom :: int
  screen_margin_right :: int
  notify_on_apply_layout :: bool
  notify_on_launch :: bool

definition default_config :: config where
  "default_config =
     \<lparr>window_margin_top = 30, window_margin_left = 30,
      screen_margin_bottom = 30, screen_margin_right = 30,
      notify_on_apply_layout = False, notify_on_launch = True\<rparr>"

section \<open>Layout definitions\<close>

text \<open>The string constants of class \<open>Layouts\<close>.\<close>

abbreviation FULL_SCREEN :: string where "FULL_SCREEN \<equiv> ''Full Screen''"
abbreviation MAXIMIZED :: string where "MAXIMIZED \<equiv> ''Maximized''"
abbreviation ALMOST_MAXIMIZED :: string where "ALMOST_MAXIMIZED \<equiv> ''Almost Maximized''"
abbreviation COL_50_LEFT :: string where "COL_50_LEFT \<equiv> ''50% Left''"
abbreviation COL_50_RIGHT :: string where "COL_50_RIGHT \<equiv> ''50% Right''"
abbreviation COL_66_LEFT :: string where "COL_66_LEFT \<equiv> ''66% Left''"
abbreviation COL_66_RIGHT :: string where "COL_66_RIGHT \<equiv> ''66% Right''"
abbreviation COL_33_LEFT :: string where "COL_33_LEFT \<equiv> ''33% Left''"
abbreviation COL_33_CENTER :: string where "COL_33_CENTER \<equiv> ''33% Center''"
abbreviation COL_33_RIGHT :: string where "COL_33_RIGHT \<equiv> ''33% Right''"
abbreviation ROW_50_TOP :: string where "ROW_50_TOP \<equiv> ''50% Top''"
abbreviation ROW_50_BOTTOM :: string where "ROW_50_BOTTOM \<equiv> ''50% Bottom''"
abbreviation ROW_66_TOP :: string where "ROW_66_TOP \<equiv> ''66% Top''"
abbreviation ROW_66_BOTTOM :: string where "ROW_66_BOTTOM \<equiv> ''66% Bottom''"
abbreviation ROW_33_TOP :: string where "ROW_33_TOP \<equiv> ''33% Top''"
abbreviation ROW_33_CENTER :: string where "ROW_33_CENTER \<equiv> ''33% Middle''"
abbreviation ROW_33_BOTTOM :: string where "ROW_33_BOTTOM \<equiv> ''33% Bottom''"
abbreviation CELL_50_LEFT_TOP :: string where "CELL_50_LEFT_TOP \<equiv> ''50% Top Left''"
abbreviation CELL_50_LEFT_BOTTOM :: string where "CELL_50_LEFT_BOTTOM \<equiv> ''50% Bottom Left''"
abbreviation CELL_50_RIGHT_TOP :: string where "CELL_50_RIGHT_TOP \<equiv> ''50% Top Right''"
abbreviation CELL_50_RIGHT_BOTTOM :: string where "CELL_50_RIGHT_BOTTOM \<equiv> ''50% Bottom Right''"
abbreviation CELL_33_LEFT_TOP :: string where "CELL_33_LEFT_TOP \<equiv> ''33% Top Left''"
abbreviation CELL_33_LEFT_CENTER :: string where "CELL_33_LEFT_CENTER \<equiv> ''33% Middle Left''"
abbreviation CELL_33_LEFT_BOTTOM :: string where "CELL_33_LEFT_BOTTOM \<equiv> ''33% Bottom Left''"
abbreviation CELL_33_CENTER_TOP :: string where "CELL_33_CENTER_TOP \<equiv> ''33% Top Center''"
abbreviation CELL_33_CENTER_CENTER :: string where "CELL_33_CENTER_CENTER \<equiv> ''33% Middle Center''"
abbreviation CELL_33_CENTER_BOTTOM :: string where "CELL_33_CENTER_BOTTOM \<equiv> ''33% Bottom Center''"
abbreviation CELL_33_RIGHT_TOP :: string where "CELL_33_RIGHT_TOP \<equiv> ''33% Top Right''"
abbreviation CELL_33_RIGHT_CENTER :: string where "CELL_33_RIGHT_CENTER \<equiv> ''33% Middle Right''"
abbreviation CELL_33_RIGHT_BOTTOM :: string where "CELL_33_RIGHT_BOTTOM \<equiv> ''33% Bottom Right''"

text \<open>The float literals \<open>0.0\<close>, \<open>0.5\<close>, \<open>1.0\<close> and the quotients \<open>1 / 3\<close>, \<open>2 / 3\<close>.\<close>

definition f_0_0 :: pyfloat where "f_0_0 = PyFloat 0 0"
definition f_0_5 :: pyfloat where "f_0_5 = PyFloat 1 (- 1)"
definition f_1_0 :: pyfloat where "f_1_0 = PyFloat 1 0"
definition f_1_3 :: pyfloat where "f_1_3 = int_truediv 1 3"
definition f_2_3 :: pyfloat where "f_2_3 = int_truediv 2 3"

type_synonym geometry = "pyfloat \<times> pyfloat \<times> pyfloat \<times> pyfloat"

text \<open>\<open>LAYOUT_GEOMETRY\<close>: (x_factor, y_factor, width_factor, height_factor).\<close>

definition LAYOUT_GEOMETRY :: "(string \<times> geometry) list" where
  "LAYOUT_GEOMETRY =
     [(ALMOST_MAXIMIZED, (f_0_0, f_0_0, f_1_0, f_1_0)),
      (COL_50_LEFT, (f_0_0, f_0_0, f_0_5, f_1_0)),
      (COL_50_RIGHT, (f_0_5, f_0_0, f_0_5, f_1_0)),
      (COL_66_LEFT, (f_0_0, f_0_0, f_2_3, f_1_0)),
      (COL_66_RIGHT, (f_1_3, f_0_0, f_2_3, f_1_0)),
      (COL_33_LEFT, (f_0_0, f_0_0, f_1_3, f_1_0)),
      (COL_33_CENTER, (f_1_3, f_0_0, f_1_3, f_1_0)),
      (COL_33_RIGHT, (f_2_3, f_0_0, f_1_3, f_1_0)),
      (ROW_50_TOP, (f_0_0, f_0_0, f_1_0, f_0_5)),
      (ROW_50_BOTTOM, (f_0_0, f_0_5, f_1_0, f_0_5)),
      (ROW_66_TOP, (f_0_0, f_0_0, f_1_0, f_2_3)),
      (ROW_66_BOTTOM, (f_0_0, f_1_3, f_1_0, f_2_3)),
      (ROW_33_TOP, (f_0_0, f_0_0, f_1_0, f_1_3)),
      (ROW_33_CENTER, (f_0_0, f_1_3, f_1_0, f_1_3)),
      (ROW_33_BOTTOM, (f_0_0, f_2_3, f_1_0, f_1_3)),
      (CELL_50_LEFT_TOP, (f_0_0, f_0_0, f_0_5, f_0_5)),
      (CELL_50_LEFT_BOTTOM, (f_0_0, f_0_5, f_0_5, f_0_5)),
      (CELL_50_RIGHT_TOP, (f_0_5, f_0_0, f_0_5, f_0_5)),
      (CELL_50_RIGHT_BOTTOM, (f_0_5, f_0_5, f_0_5, f_0_5)),
      (CELL_33_LEFT_TOP, (f_0_0, f_0_0, f_1_3, f_1_3)),
      (CELL_33_LEFT_CENTER, (f_0_0, f_1_3, f_1_3, f_1_3)),
      (CELL_33_LEFT_BOTTOM, (f_0_0, f_2_3, f_1_3, f_1_3)),
      (CELL_33_CENTER_TOP, (f_1_3, f_0_0, f_1_3, f_1_3)),
      (CELL_33_CENTER_CENTER, (f_1_3, f_1_3, f_1_3, f_1_3)),
      (CELL_33_CENTER_BOTTOM, (f_1_3, f_2_3, f_1_3, f_1_3)),
      (CELL_33_RIGHT_TOP, (f_2_3, f_0_0, f_1_3, f_1_3)),
      (CELL_33_RIGHT_CENTER, (f_2_3, f_1_3, f_1_3, f_1_3)),
      (CELL_33_RIGHT_BOTTOM, (f_2_3, f_2_3, f_1_3, f_1_3))]"

text \<open>\<open>LAYOUT_SEQUENCE\<close>: the ordered list whose indices are stored per window.\<close>

definition LAYOUT_SEQUENCE :: "string list" where
  "LAYOUT_SEQUENCE =
     [FULL_SCREEN, MAXIMIZED, ALMOST_MAXIMIZED,
      COL_50_LEFT, COL_50_RIGHT, COL_66_LEFT, COL_66_RIGHT,
      COL_33_LEFT, COL_33_CENTER, COL_33_RIGHT,
      ROW_50_TOP, ROW_50_BOTTOM, ROW_66_TOP, ROW_66_BOTTOM,
      ROW_33_TOP, ROW_33_CENTER, ROW_33_BOTTOM,
      CELL_50_LEFT_TOP, CELL_50_LEFT_BOTTOM, CELL_50_RIGHT_TOP, CELL_50_RIGHT_BOTTOM,
      CELL_33_LEFT_TOP, CELL_33_LEFT_CENTER, CELL_33_LEFT_BOTTOM,
      CELL_33_CENTER_TOP, CELL_33_CENTER_CENTER, CELL_33_CENTER_BOTTOM,
      CELL_33_RIGHT_TOP, CELL_33_RIGHT_CENTER, CELL_33_RIGHT_BOTTOM]"

text \<open>\<open>LAYOUT_TRANSITIONS\<close>: (source layout, direction) to target layout.\<close>

definition LAYOUT_TRANSITIONS :: "((string \<times> string) \<times> string) list" where
  "LAYOUT_TRANSITIONS =
     [((COL_50_LEFT, ''up''), CELL_50_LEFT_TOP),
      ((COL_50_LEFT, ''down''), CELL_50_LEFT_BOTTOM),
      ((COL_50_RIGHT, ''up''), CELL_50_RIGHT_TOP),
      ((COL_50_RIGHT, ''down''), CELL_50_RIGHT_BOTTOM),
      ((ROW_50_TOP, ''left''), CELL_50_LEFT_TOP),
      ((ROW_50_TOP, ''right''), CELL_50_RIGHT_TOP),
      ((ROW_50_BOTTOM, ''left''), CELL_50_LEFT_BOTTOM),
      ((ROW_50_BOTTOM, ''right''), CELL_50_RIGHT_BOTTOM)]"

text \<open>\<open>DEFAULT_TRANSITIONS\<close>: the layout for a direction when no rule matches.\<close>

definition DEFAULT_TRANSITIONS :: "(string \<times> string) list" where
  "DEFAULT_TRANSITIONS =
     [(''left'', COL_50_LEFT), (''right'', COL_50_RIGHT),
      (''up'', ROW_50_TOP), (''down'', ROW_50_BOTTOM)]"

text \<open>\<open>xs.index(x)\<close>; \<open>None\<close> where Python raises \<open>ValueError\<close>, that is where
  \<open>x in xs\<close> is false.\<close>

fun index_of :: "'a list \<Rightarrow> 'a \<Rightarrow> nat option" where
  "index_of [] x = None"
| "index_of (y # ys) x =
     (if y = x then Some 0 else map_option Suc (index_of ys x))"

section \<open>The outside world\<close>

text \<open>
  The core talks to the desktop through \<open>_run_command\<close> and \<open>Notify.send\<close>. Each
  external command that is run is recorded, in order, as a \<open>command\<close>; the numeric
  arguments are kept as integers (the program passes \<open>str(width)\<close> and so on).
\<close>

datatype command =
    GetWindowFocus
  | GetWindowGeometry string
  | Xrandr
  | WindowState string string string
  | WindowSize string int int
  | WindowMove string int int
  | NotifySend string string

text \<open>
  What the external tools answer during one operation of the core:
  the output of \<open>xdotool getwindowfocus\<close>; for each window, the two groups of the
  match of \<open>Position: (\d+),(\d+)\<close> in the output of \<open>xdotool getwindowgeometry\<close>
  (\<open>None\<close> when there is no match); and, for the first and the second run of
  \<open>xrandr\<close>, the groups \<open>(w, h, ox, oy)\<close> of every line that matches
  \<open>connected(?: primary)? (\d+)x(\d+)\+(\d+)\+(\d+)\<close>. One operation runs
  \<open>xrandr\<close> at most twice.
\<close>

record environment =
  window_focus :: string
  window_geometry :: "string \<Rightarrow> (nat \<times> nat) option"
  xrandr_first :: "(nat \<times> nat \<times> nat \<times> nat) list"
  xrandr_second :: "(nat \<times> nat \<times> nat \<times> nat) list"

record display =
  x_start :: int
  x_end :: int
  y_start :: int
  y_end :: int
  offset_left :: int
  offset_top :: int
  width :: int
  height :: int

section \<open>XlapCore\<close>

text \<open>\<open>self._window_state\<close>: window id to layout index.\<close>

type_synonym window_state = "string \<rightharpoonup> nat"

text \<open>\<open>get_active_window_id\<close>: the output, or \<open>None\<close> when it is empty.\<close>

definition get_active_window_id :: "environment \<Rightarrow> string option" where
  "get_active_window_id env =
     (if window_focus env = [] then None else Some (window_focus env))"

definition get_window_position :: "environment \<Rightarrow> string \<Rightarrow> (int \<times> int) option" where
  "get_window_position env window_id =
     (case window_geometry env window_id of
        Some (left, top') \<Rightarrow> Some (max 0 (int left), max 0 (int top'))
      | None \<Rightarrow> None)"

definition get_connected_displays :: "(nat \<times> nat \<times> nat \<times> nat) list \<Rightarrow> display list" where
  "get_connected_displays matches =
     map (\<lambda>(w, h, ox, oy).
            \<lparr>x_start = int ox, x_end = int ox + int w,
             y_start = int oy, y_end = int oy + int h,
             offset_left = int ox, offset_top = int oy,
             width = int w, height = int h\<rparr>) matches"

text \<open>The test of the \<open>for\<close> loop in \<open>get_display_for_window\<close>.\<close>

definition display_contains :: "display \<Rightarrow> int \<Rightarrow> int \<Rightarrow> bool" where
  "display_contains d left top' \<longleftrightarrow>
     x_start d \<le> left \<and> left < x_end d \<and> y_start d \<le> top' \<and> top' < y_end d"

text \<open>The \<open>for\<close> loop of \<open>get_display_for_window\<close>: the first display that passes
  the test is returned; \<open>None\<close> when the loop runs to its end.\<close>

fun display_loop :: "display list \<Rightarrow> int \<Rightarrow> int \<Rightarrow> display option" where
  "display_loop [] left top' = None"
| "display_loop (d # ds) left top' =
     (if display_contains d left top' then Some d else display_loop ds left top')"

text \<open>\<open>get_display_for_window\<close>, with the commands it runs.\<close>

definition get_display_for_window ::
  "environment \<Rightarrow> string \<Rightarrow> display option \<times> command list" where
  "get_display_for_window env window_id =
     (case get_window_position env window_id of
        None \<Rightarrow> (None, [GetWindowGeometry window_id])
      | Some (left, top') \<Rightarrow>
          (case display_loop (get_connected_displays (xrandr_first env)) left top' of
             Some d \<Rightarrow> (Some d, [GetWindowGeometry window_id, Xrandr])
           | None \<Rightarrow>
               (case get_connected_displays (xrandr_second env) of
                  [] \<Rightarrow> (None, [GetWindowGeometry window_id, Xrandr, Xrandr])
                | d # ds \<Rightarrow> (Some d, [GetWindowGeometry window_id, Xrandr, Xrandr]))))"

text \<open>
  The arithmetic of \<open>apply_layout\<close> (from \<open>screen_w = ...\<close> to \<open>top = ...\<close>):
  the result is \<open>(width, height, left, top)\<close>, or the exception raised.
\<close>

definition layout_bounds ::
  "config \<Rightarrow> display \<Rightarrow> geometry \<Rightarrow> py_error + (int \<times> int \<times> int \<times> int)" where
  "layout_bounds cfg d geom =
     (case geom of (x_f, y_f, w_f, h_f) \<Rightarrow>
        let screen_w = width d - screen_margin_right cfg;
            screen_h = height d - screen_margin_bottom cfg
        in case int_times_float screen_w w_f of Inl err \<Rightarrow> Inl err | Inr iw \<Rightarrow>
           case int_times_float screen_h h_f of Inl err \<Rightarrow> Inl err | Inr ih \<Rightarrow>
           case int_times_float screen_w x_f of Inl err \<Rightarrow> Inl err | Inr ix \<Rightarrow>
           case int_times_float screen_h y_f of Inl err \<Rightarrow> Inl err | Inr iy \<Rightarrow>
             Inr (iw - window_margin_left cfg,
                  ih - window_margin_top cfg,
                  offset_left d + ix + window_margin_left cfg,
                  offset_top d + iy + window_margin_top cfg))"

text \<open>The last statement of \<open>apply_layout\<close>: the optional notification.\<close>

definition notify_applied :: "config \<Rightarrow> string \<Rightarrow> command list" where
  "notify_applied cfg layout =
     (if notify_on_apply_layout cfg then [NotifySend layout []] else [])"

text \<open>
  \<open>apply_layout\<close>. The result is the new window state, the commands run, and the
  exception that ended the call, if any. The state is written before anything else
  is done, so it is part of the result on every path.
\<close>

definition apply_layout ::
  "config \<Rightarrow> environment \<Rightarrow> string \<Rightarrow> string option \<Rightarrow> window_state
     \<Rightarrow> window_state \<times> command list \<times> py_error option" where
  "apply_layout cfg env layout window_id ws =
     (case window_id of
        None \<Rightarrow> (ws, [], None)
      | Some wid \<Rightarrow>
          if wid = [] then (ws, [], None)
          else
            let ws' = (case index_of LAYOUT_SEQUENCE layout of
                         None \<Rightarrow> ws(wid \<mapsto> 0)
                       | Some i \<Rightarrow> ws(wid \<mapsto> i))
            in if layout = FULL_SCREEN then
                 (ws', [WindowState ''--add'' ''fullscreen'' wid] @ notify_applied cfg layout, None)
               else if layout = MAXIMIZED then
                 (ws', [WindowState ''--remove'' ''fullscreen'' wid,
                        WindowState ''--add'' ''maximized_vert,maximized_horz'' wid]
                       @ notify_applied cfg layout, None)
               else
                 (case get_display_for_window env wid of
                    (None, cmds) \<Rightarrow>
                      (ws', cmds @ [NotifySend ''Layout Error''
                                      (''Display not found for window '' @ wid)], None)
                  | (Some d, cmds) \<Rightarrow>
                      (case map_of LAYOUT_GEOMETRY layout of
                         None \<Rightarrow> (ws', cmds, None)
                       | Some geom \<Rightarrow>
                           (case layout_bounds cfg d geom of
                              Inl err \<Rightarrow> (ws', cmds, Some err)
                            | Inr (w, h, left, top') \<Rightarrow>
                                (ws', cmds @
                                   [WindowState ''--remove''
                                      ''fullscreen,maximized_vert,maximized_horz'' wid,
                                    WindowSize wid w h,
                                    WindowMove wid left top']
                                   @ notify_applied cfg layout, None)))))"

text \<open>
  The choice of the new layout in \<open>modify_layout\<close>: the specific transition, and
  the default for the direction when there is none (\<open>not new_layout\<close> also holds for
  an empty string).
\<close>

definition next_layout :: "string \<Rightarrow> string \<Rightarrow> string option" where
  "next_layout current_layout direction =
     (case map_of LAYOUT_TRANSITIONS (current_layout, direction) of
        Some new_layout \<Rightarrow>
          if new_layout = [] then map_of DEFAULT_TRANSITIONS direction
          else Some new_layout
      | None \<Rightarrow> map_of DEFAULT_TRANSITIONS direction)"

text \<open>
  The current layout of a window in \<open>modify_layout\<close>: the stored index, index of
  \<open>Maximized\<close> when there is none, looked up in \<open>LAYOUT_SEQUENCE\<close>.
\<close>

definition current_layout :: "window_state \<Rightarrow> string \<Rightarrow> py_error + string" where
  "current_layout ws window_id =
     (case (case ws window_id of
              Some i \<Rightarrow> Inr i
            | None \<Rightarrow> (case index_of LAYOUT_SEQUENCE MAXIMIZED of
                         None \<Rightarrow> Inl ValueError | Some i \<Rightarrow> Inr i)) of
        Inl err \<Rightarrow> Inl err
      | Inr last_layout_index \<Rightarrow>
          if last_layout_index < length LAYOUT_SEQUENCE
          then Inr (LAYOUT_SEQUENCE ! last_layout_index)
          else Inl IndexError)"

text \<open>The layout \<open>modify_layout\<close> decides on for a window and a direction.\<close>

definition resolve_layout :: "window_state \<Rightarrow> string \<Rightarrow> string \<Rightarrow> py_error + string option" where
  "resolve_layout ws window_id direction =
     (case current_layout ws window_id of
        Inl err \<Rightarrow> Inl err
      | Inr cur \<Rightarrow> Inr (next_layout cur direction))"

text \<open>\<open>modify_layout\<close>, with the commands it runs and the exception, if any.\<close>

definition modify_layout ::
  "config \<Rightarrow> environment \<Rightarrow> string \<Rightarrow> window_state
     \<Rightarrow> window_state \<times> command list \<times> py_error option" where
  "modify_layout cfg env direction ws =
     (case get_active_window_id env of
        None \<Rightarrow> (ws, [GetWindowFocus], None)
      | Some active_window \<Rightarrow>
          (case resolve_layout ws active_window direction of
             Inl err \<Rightarrow> (ws, [GetWindowFocus], Some err)
           | Inr None \<Rightarrow> (ws, [GetWindowFocus], None)
           | Inr (Some new_layout) \<Rightarrow>
               (case apply_layout cfg env new_layout (Some active_window) ws of
                  (ws', cmds, err) \<Rightarrow> (ws', GetWindowFocus # cmds, err))))"

text \<open>A run of directional snaps, each with its own configuration and environment.\<close>

fun modify_layouts ::
  "(config \<times> environment \<times> string) list \<Rightarrow> window_state \<Rightarrow> window_state" where
  "modify_layouts [] ws = ws"
| "modify_layouts ((cfg, env, direction) # rest) ws =
     modify_layouts rest (fst (modify_layout cfg env direction ws))"

text \<open>The commands that change a window's geometry or state (resize, move, state).\<close>

fun is_geometry_call :: "command \<Rightarrow> bool" where
  "is_geometry_call (WindowState action prop wid) = True"
| "is_geometry_call (WindowSize wid w h) = True"
| "is_geometry_call (WindowMove wid x y) = True"
| "is_geometry_call c = False"

section \<open>Facts about the tables\<close>

lemma transitions_lookup:
  "map_of LAYOUT_TRANSITIONS (L, d) =
     (if L = COL_50_LEFT \<and> d = ''up'' then Some CELL_50_LEFT_TOP
      else if L = COL_50_LEFT \<and> d = ''down'' then Some CELL_50_LEFT_BOTTOM
      else if L = COL_50_RIGHT \<and> d = ''up'' then Some CELL_50_RIGHT_TOP
      else if L = COL_50_RIGHT \<and> d = ''down'' then Some CELL_50_RIGHT_BOTTOM
      else if L = ROW_50_TOP \<and> d = ''left'' then Some CELL_50_LEFT_TOP
      else if L = ROW_50_TOP \<and> d = ''right'' then Some CELL_50_RIGHT_TOP
      else if L = ROW_50_BOTTOM \<and> d = ''left'' then Some CELL_50_LEFT_BOTTOM
      else if L = ROW_50_BOTTOM \<and> d = ''right'' then Some CELL_50_RIGHT_BOTTOM
      else None)"
  by (simp add: LAYOUT_TRANSITIONS_def)

lemma default_lookup:
  "map_of DEFAULT_TRANSITIONS d =
     (if d = ''left'' then Some COL_50_LEFT
      else if d = ''right'' then Some COL_50_RIGHT
      else if d = ''up'' then Some ROW_50_TOP
      else if d = ''down'' then Some ROW_50_BOTTOM
      else None)"
  by (simp add: DEFAULT_TRANSITIONS_def)

lemma next_layout_no_rule:
  "map_of LAYOUT_TRANSITIONS (L, d) = None \<Longrightarrow>
     next_layout L d = map_of DEFAULT_TRANSITIONS d"
  by (simp add: next_layout_def)

lemma next_layout_rule:
  "map_of LAYOUT_TRANSITIONS (L, d) = Some t \<Longrightarrow> next_layout L d = Some t"
  by (auto simp: next_layout_def transitions_lookup split: if_splits)

lemma next_layout_total:
  "d \<in> {''left'', ''right'', ''up'', ''down''} \<Longrightarrow>
     \<exists>l. next_layout L d = Some l \<and> l \<noteq> []"
  by (cases "map_of LAYOUT_TRANSITIONS (L, d)")
     (auto simp: next_layout_no_rule next_layout_rule default_lookup transitions_lookup
           split: if_splits)

lemma index_of_maximized: "index_of LAYOUT_SEQUENCE MAXIMIZED = Some 1"
  by (simp add: LAYOUT_SEQUENCE_def)

lemma length_LAYOUT_SEQUENCE: "length LAYOUT_SEQUENCE = 30"
  by (simp add: LAYOUT_SEQUENCE_def)

lemma current_layout_none: "ws w = None \<Longrightarrow> current_layout ws w = Inr MAXIMIZED"
  by (simp add: current_layout_def index_of_maximized length_LAYOUT_SEQUENCE)
     (simp add: LAYOUT_SEQUENCE_def)

lemma current_layout_some:
  "ws w = Some i \<Longrightarrow> i < length LAYOUT_SEQUENCE \<Longrightarrow>
     current_layout ws w = Inr (LAYOUT_SEQUENCE ! i)"
  by (simp add: current_layout_def)

section \<open>The transition engine\<close>

text \<open>
  Claim C1. For every layout name \<open>L\<close> (a catalog entry, a special layout or an unknown
  name) and every direction \<open>d\<close> among left, right, up and down: when \<open>(L, d)\<close> is not a
  key of \<open>LAYOUT_TRANSITIONS\<close>, the layout chosen is exactly \<open>DEFAULT_TRANSITIONS[d]\<close>,
  also for a window whose current layout is \<open>L\<close>. The choice is total: every pair
  yields a non-empty layout name, and for a window whose stored index is within
  \<open>LAYOUT_SEQUENCE\<close> no exception is raised.
\<close>

theorem resolve_falls_back_to_default:
  assumes "d \<in> {''left'', ''right'', ''up'', ''down''}"
  shows "(map_of LAYOUT_TRANSITIONS (L, d) = None \<longrightarrow>
            next_layout L d = map_of DEFAULT_TRANSITIONS d \<and>
            (current_layout ws w = Inr L \<longrightarrow>
               resolve_layout ws w d = Inr (map_of DEFAULT_TRANSITIONS d)))
         \<and> (\<exists>l. next_layout L d = Some l \<and> l \<noteq> [])
         \<and> ((\<forall>i. ws w = Some i \<longrightarrow> i < length LAYOUT_SEQUENCE) \<longrightarrow>
              (\<exists>l. resolve_layout ws w d = Inr (Some l)))"
proof (intro conjI impI)
  assume "map_of LAYOUT_TRANSITIONS (L, d) = None"
  then show nl: "next_layout L d = map_of DEFAULT_TRANSITIONS d"
    by (rule next_layout_no_rule)
  assume "current_layout ws w = Inr L"
  with nl show "resolve_layout ws w d = Inr (map_of DEFAULT_TRANSITIONS d)"
    by (simp add: resolve_layout_def)
next
  from assms show "\<exists>l. next_layout L d = Some l \<and> l \<noteq> []"
    by (rule next_layout_total)
next
  assume valid: "\<forall>i. ws w = Some i \<longrightarrow> i < length LAYOUT_SEQUENCE"
  obtain cur where cur: "current_layout ws w = Inr cur"
  proof (cases "ws w")
    case None
    then show ?thesis using that current_layout_none by blast
  next
    case (Some i)
    with valid show ?thesis using that current_layout_some by blast
  qed
  from assms obtain l where "next_layout cur d = Some l"
    using next_layout_total by blast
  with cur show "\<exists>l. resolve_layout ws w d = Inr (Some l)"
    by (simp add: resolve_layout_def)
qed

theorem resolve_falls_back_to_default_witness:
  "''down'' \<in> {''left'', ''right'', ''up'', ''down''}
   \<and> map_of LAYOUT_TRANSITIONS (COL_33_CENTER, ''down'') = None
   \<and> current_layout [''0x2a'' \<mapsto> 8] ''0x2a'' = Inr COL_33_CENTER
   \<and> next_layout COL_33_CENTER ''down'' = Some ROW_50_BOTTOM
   \<and> resolve_layout [''0x2a'' \<mapsto> 8] ''0x2a'' ''down'' = Inr (Some ROW_50_BOTTOM)"
proof -
  have d: "''down'' \<in> {''left'', ''right'', ''up'', ''down''}" by simp
  have k: "map_of LAYOUT_TRANSITIONS (COL_33_CENTER, ''down'') = None"
    by (simp add: LAYOUT_TRANSITIONS_def)
  have c: "current_layout [''0x2a'' \<mapsto> 8] ''0x2a'' = Inr COL_33_CENTER"
    by (simp add: current_layout_def LAYOUT_SEQUENCE_def)
  have dflt: "map_of DEFAULT_TRANSITIONS ''down'' = Some ROW_50_BOTTOM"
    by (simp add: DEFAULT_TRANSITIONS_def)
  from resolve_falls_back_to_default [OF d, of COL_33_CENTER "[''0x2a'' \<mapsto> 8]" "''0x2a''"]
    k c dflt d
  show ?thesis by simp
qed

lemma distinct_transition_keys: "distinct (map fst LAYOUT_TRANSITIONS)"
  by (simp add: LAYOUT_TRANSITIONS_def)

lemma transitions_member:
  "((L, d), t) \<in> set LAYOUT_TRANSITIONS \<Longrightarrow> map_of LAYOUT_TRANSITIONS (L, d) = Some t"
  by (rule map_of_is_SomeI [OF distinct_transition_keys])

text \<open>
  Claim C2. Each of the eight keys of \<open>LAYOUT_TRANSITIONS\<close>, (50% Left, up),
  (50% Left, down), (50% Right, up), (50% Right, down), (50% Top, left),
  (50% Top, right), (50% Bottom, left) and (50% Bottom, right), resolves to the
  corner cell the table gives for it, whatever the rest of the window state is; a
  window recorded as 50% Left (index 3) resolves "up" to 50% Top Left.
\<close>

theorem resolve_explicit_rules:
  "(\<forall>L d t. ((L, d), t) \<in> set LAYOUT_TRANSITIONS \<longrightarrow>
       next_layout L d = Some t \<and>
       (\<forall>ws w. current_layout ws w = Inr L \<longrightarrow> resolve_layout ws w d = Inr (Some t)))
   \<and> map fst LAYOUT_TRANSITIONS =
       [(COL_50_LEFT, ''up''), (COL_50_LEFT, ''down''),
        (COL_50_RIGHT, ''up''), (COL_50_RIGHT, ''down''),
        (ROW_50_TOP, ''left''), (ROW_50_TOP, ''right''),
        (ROW_50_BOTTOM, ''left''), (ROW_50_BOTTOM, ''right'')]
   \<and> map snd LAYOUT_TRANSITIONS =
       [CELL_50_LEFT_TOP, CELL_50_LEFT_BOTTOM, CELL_50_RIGHT_TOP, CELL_50_RIGHT_BOTTOM,
        CELL_50_LEFT_TOP, CELL_50_RIGHT_TOP, CELL_50_LEFT_BOTTOM, CELL_50_RIGHT_BOTTOM]
   \<and> (\<forall>ws w. ws w = Some 3 \<longrightarrow>
          resolve_layout ws w ''up'' = Inr (Some CELL_50_LEFT_TOP))"
proof -
  have rules: "\<forall>L d t. ((L, d), t) \<in> set LAYOUT_TRANSITIONS \<longrightarrow>
       next_layout L d = Some t \<and>
       (\<forall>ws w. current_layout ws w = Inr L \<longrightarrow> resolve_layout ws w d = Inr (Some t))"
  proof (intro allI impI conjI)
    fix L d t
    assume "((L, d), t) \<in> set LAYOUT_TRANSITIONS"
    then have "map_of LAYOUT_TRANSITIONS (L, d) = Some t"
      by (rule transitions_member)
    then show nl: "next_layout L d = Some t"
      by (rule next_layout_rule)
    fix ws :: window_state and w
    assume "current_layout ws w = Inr L"
    with nl show "resolve_layout ws w d = Inr (Some t)"
      by (simp add: resolve_layout_def)
  qed
  have keys: "map fst LAYOUT_TRANSITIONS =
       [(COL_50_LEFT, ''up''), (COL_50_LEFT, ''down''),
        (COL_50_RIGHT, ''up''), (COL_50_RIGHT, ''down''),
        (ROW_50_TOP, ''left''), (ROW_50_TOP, ''right''),
        (ROW_50_BOTTOM, ''left''), (ROW_50_BOTTOM, ''right'')]"
    by (simp add: LAYOUT_TRANSITIONS_def)
  have targets: "map snd LAYOUT_TRANSITIONS =
       [CELL_50_LEFT_TOP, CELL_50_LEFT_BOTTOM, CELL_50_RIGHT_TOP, CELL_50_RIGHT_BOTTOM,
        CELL_50_LEFT_TOP, CELL_50_RIGHT_TOP, CELL_50_LEFT_BOTTOM, CELL_50_RIGHT_BOTTOM]"
    by (simp add: LAYOUT_TRANSITIONS_def)
  have scenario: "\<forall>ws w. ws w = Some 3 \<longrightarrow>
          resolve_layout ws w ''up'' = Inr (Some CELL_50_LEFT_TOP)"
  proof (intro allI impI)
    fix ws :: window_state and w
    assume "ws w = Some 3"
    then have "current_layout ws w = Inr COL_50_LEFT"
      by (simp add: current_layout_def LAYOUT_SEQUENCE_def)
    moreover have "next_layout COL_50_LEFT ''up'' = Some CELL_50_LEFT_TOP"
      by (simp add: next_layout_rule transitions_lookup)
    ultimately show "resolve_layout ws w ''up'' = Inr (Some CELL_50_LEFT_TOP)"
      by (simp add: resolve_layout_def)
  qed
  from rules keys targets scenario show ?thesis
    by (intro conjI)
qed

theorem resolve_explicit_rules_witness:
  "((ROW_50_BOTTOM, ''right''), CELL_50_RIGHT_BOTTOM) \<in> set LAYOUT_TRANSITIONS
   \<and> next_layout ROW_50_BOTTOM ''right'' = Some CELL_50_RIGHT_BOTTOM
   \<and> current_layout [''0x7'' \<mapsto> 11, ''0x8'' \<mapsto> 0] ''0x7'' = Inr ROW_50_BOTTOM
   \<and> resolve_layout [''0x7'' \<mapsto> 11, ''0x8'' \<mapsto> 0] ''0x7'' ''right''
        = Inr (Some CELL_50_RIGHT_BOTTOM)
   \<and> [''0x9'' \<mapsto> 3] ''0x9'' = Some (3::nat)
   \<and> resolve_layout [''0x9'' \<mapsto> 3] ''0x9'' ''up'' = Inr (Some CELL_50_LEFT_TOP)"
proof -
  have m: "((ROW_50_BOTTOM, ''right''), CELL_50_RIGHT_BOTTOM) \<in> set LAYOUT_TRANSITIONS"
    by (simp add: LAYOUT_TRANSITIONS_def)
  have c: "current_layout [''0x7'' \<mapsto> 11, ''0x8'' \<mapsto> 0] ''0x7'' = Inr ROW_50_BOTTOM"
    by (simp add: current_layout_def LAYOUT_SEQUENCE_def)
  have s: "[''0x9'' \<mapsto> 3] ''0x9'' = Some (3::nat)" by simp
  note r1 = resolve_explicit_rules [THEN conjunct1, rule_format, OF m]
  note n = r1 [THEN conjunct1]
  note rr = r1 [THEN conjunct2, rule_format, OF c]
  note ru = resolve_explicit_rules
              [THEN conjunct2, THEN conjunct2, THEN conjunct2, rule_format,
               of "[''0x9'' \<mapsto> 3]" "''0x9''", OF s]
  from m n c rr s ru show ?thesis
    by (intro conjI)
qed

text \<open>
  Claim C8. A window with no entry in the window state is treated as Maximized;
  (Maximized, left) is not a key of \<open>LAYOUT_TRANSITIONS\<close>, so direction "left"
  resolves to 50% Left.
\<close>

theorem resolve_unrecorded_window:
  assumes "ws w = None"
  shows "current_layout ws w = Inr MAXIMIZED
         \<and> map_of LAYOUT_TRANSITIONS (MAXIMIZED, ''left'') = None
         \<and> resolve_layout ws w ''left'' = Inr (Some COL_50_LEFT)"
proof -
  from assms have c: "current_layout ws w = Inr MAXIMIZED"
    by (rule current_layout_none)
  have k: "map_of LAYOUT_TRANSITIONS (MAXIMIZED, ''left'') = None"
    by (simp add: transitions_lookup)
  then have "next_layout MAXIMIZED ''left'' = Some COL_50_LEFT"
    by (simp add: next_layout_no_rule default_lookup)
  with c k show ?thesis
    by (simp add: resolve_layout_def)
qed

theorem resolve_unrecorded_window_witness:
  "Map.empty ''0x1c00007'' = (None :: nat option)
   \<and> current_layout Map.empty ''0x1c00007'' = Inr MAXIMIZED
   \<and> resolve_layout Map.empty ''0x1c00007'' ''left'' = Inr (Some COL_50_LEFT)"
  using resolve_unrecorded_window [of Map.empty "''0x1c00007''"] by simp

text \<open>
  Claim C9. For every layout name \<open>L\<close> and every direction \<open>d\<close> among left, right, up
  and down, choosing the next layout twice in the same direction ends on
  \<open>DEFAULT_TRANSITIONS[d]\<close>: the targets of the rules (corner cells) and the
  defaults (halves) have no rule for that same direction.
\<close>

theorem next_layout_twice_is_default:
  assumes "d \<in> {''left'', ''right'', ''up'', ''down''}"
  shows "\<exists>L'. next_layout L d = Some L'
              \<and> map_of LAYOUT_TRANSITIONS (L', d) = None
              \<and> next_layout L' d = map_of DEFAULT_TRANSITIONS d
              \<and> map_of DEFAULT_TRANSITIONS d \<noteq> None"
proof (cases "map_of LAYOUT_TRANSITIONS (L, d)")
  case None
  then have "next_layout L d = map_of DEFAULT_TRANSITIONS d"
    by (rule next_layout_no_rule)
  moreover from assms obtain L' where L': "map_of DEFAULT_TRANSITIONS d = Some L'"
    by (auto simp: default_lookup)
  moreover from assms L' have k: "map_of LAYOUT_TRANSITIONS (L', d) = None"
    by (auto simp: default_lookup transitions_lookup split: if_splits)
  moreover from k have "next_layout L' d = map_of DEFAULT_TRANSITIONS d"
    by (rule next_layout_no_rule)
  ultimately show ?thesis by simp
next
  case (Some t)
  then have "next_layout L d = Some t"
    by (rule next_layout_rule)
  moreover from Some have k: "map_of LAYOUT_TRANSITIONS (t, d) = None"
    by (auto simp: transitions_lookup split: if_splits)
  moreover from k have "next_layout t d = map_of DEFAULT_TRANSITIONS d"
    by (rule next_layout_no_rule)
  moreover from assms have "map_of DEFAULT_TRANSITIONS d \<noteq> None"
    by (auto simp: default_lookup)
  ultimately show ?thesis by simp
qed

theorem next_layout_twice_is_default_witness:
  "''up'' \<in> {''left'', ''right'', ''up'', ''down''}
   \<and> next_layout COL_50_RIGHT ''up'' = Some CELL_50_RIGHT_TOP
   \<and> next_layout CELL_50_RIGHT_TOP ''up'' = Some ROW_50_TOP
   \<and> map_of DEFAULT_TRANSITIONS ''up'' = Some ROW_50_TOP"
proof -
  have d: "''up'' \<in> {''left'', ''right'', ''up'', ''down''}" by simp
  have n: "next_layout COL_50_RIGHT ''up'' = Some CELL_50_RIGHT_TOP"
    by (simp add: next_layout_rule transitions_lookup)
  have dflt: "map_of DEFAULT_TRANSITIONS ''up'' = Some ROW_50_TOP"
    by (simp add: default_lookup)
  from next_layout_twice_is_default [OF d, of COL_50_RIGHT] n dflt d
  show ?thesis by auto
qed

section \<open>Applying a layout\<close>

lemma apply_layout_state:
  "fst (apply_layout cfg env layout (Some wid) ws) =
     (if wid = [] then ws
      else ws(wid \<mapsto> (case index_of LAYOUT_SEQUENCE layout of None \<Rightarrow> 0 | Some i \<Rightarrow> i)))"
  by (simp add: apply_layout_def Let_def
           split: option.split prod.split sum.split list.split)

text \<open>
  Claim C6. With an absent or empty window identifier, \<open>apply_layout\<close> does nothing,
  whatever the layout name: the window state is returned unchanged and no external
  command of any kind is run.
\<close>

theorem apply_layout_without_window:
  assumes "window_id = None \<or> window_id = Some []"
  shows "apply_layout cfg env layout window_id ws = (ws, [], None)"
  using assms by (auto simp: apply_layout_def)

theorem apply_layout_without_window_witness:
  "(Some [] = (None :: string option) \<or> Some [] = Some ([] :: string))
   \<and> apply_layout default_config
         \<lparr>window_focus = [], window_geometry = Map.empty,
          xrandr_first = [(1920, 1080, 0, 0)], xrandr_second = [(1920, 1080, 0, 0)]\<rparr>
         COL_50_LEFT (Some []) [''0x5'' \<mapsto> 4]
       = ([''0x5'' \<mapsto> 4], [], None)"
proof -
  have h: "Some [] = (None :: string option) \<or> Some [] = Some ([] :: string)" by simp
  from apply_layout_without_window [OF h] h show ?thesis by simp
qed

lemma index_of_None_iff: "index_of xs x = None \<longleftrightarrow> x \<notin> set xs"
  by (induction xs) auto

lemma index_of_Some_less: "index_of xs x = Some i \<Longrightarrow> i < length xs \<and> xs ! i = x"
  by (induction xs arbitrary: i) (auto split: if_splits)

lemma geometry_keys: "map fst LAYOUT_GEOMETRY = drop 2 LAYOUT_SEQUENCE"
  by (simp add: LAYOUT_GEOMETRY_def LAYOUT_SEQUENCE_def)

lemma distinct_LAYOUT_SEQUENCE: "distinct LAYOUT_SEQUENCE"
  by (simp add: LAYOUT_SEQUENCE_def)

lemma take2_LAYOUT_SEQUENCE: "take 2 LAYOUT_SEQUENCE = [FULL_SCREEN, MAXIMIZED]"
  by (simp add: LAYOUT_SEQUENCE_def)

lemma fractional_layout:
  assumes "map_of LAYOUT_GEOMETRY layout = Some geom"
  shows "layout \<in> set LAYOUT_SEQUENCE" and "layout \<noteq> FULL_SCREEN" and "layout \<noteq> MAXIMIZED"
proof -
  from assms have "(layout, geom) \<in> set LAYOUT_GEOMETRY"
    by (rule map_of_SomeD)
  then have "fst (layout, geom) \<in> fst ` set LAYOUT_GEOMETRY"
    by (rule imageI)
  then have "layout \<in> set (map fst LAYOUT_GEOMETRY)"
    by simp
  then have d: "layout \<in> set (drop 2 LAYOUT_SEQUENCE)"
    by (simp only: geometry_keys)
  then show "layout \<in> set LAYOUT_SEQUENCE"
    by (rule in_set_dropD)
  have "set (take 2 LAYOUT_SEQUENCE) \<inter> set (drop 2 LAYOUT_SEQUENCE) = {}"
    using distinct_LAYOUT_SEQUENCE by (metis append_take_drop_id distinct_append)
  with d have "layout \<notin> set (take 2 LAYOUT_SEQUENCE)"
    by blast
  then show "layout \<noteq> FULL_SCREEN" and "layout \<noteq> MAXIMIZED"
    by (simp_all only: take2_LAYOUT_SEQUENCE list.set insert_iff empty_iff de_Morgan_disj simp_thms)
qed

lemma no_display_when_none_reported:
  assumes "xrandr_first env = []" and "xrandr_second env = []"
  shows "get_display_for_window env wid =
           (None, if window_geometry env wid = None then [GetWindowGeometry wid]
                  else [GetWindowGeometry wid, Xrandr, Xrandr])"
  using assms
  by (simp add: get_display_for_window_def get_window_position_def get_connected_displays_def
           split: option.split prod.split)

text \<open>
  Claim C5. For a non-empty window identifier and a fractional layout (one with an
  entry in \<open>LAYOUT_GEOMETRY\<close>), when no display is reported \<open>apply_layout\<close> still
  records the index of the layout in \<open>LAYOUT_SEQUENCE\<close> for the window, then
  reports "Layout Error" (display not found) and stops: no resize, move or state
  command is run, and the recorded state is kept.
\<close>

theorem apply_layout_no_display_keeps_state:
  assumes "wid \<noteq> []"
      and "map_of LAYOUT_GEOMETRY layout = Some geom"
      and "xrandr_first env = []" and "xrandr_second env = []"
  shows "\<exists>i cmds.
           index_of LAYOUT_SEQUENCE layout = Some i
           \<and> apply_layout cfg env layout (Some wid) ws = (ws(wid \<mapsto> i), cmds, None)
           \<and> (ws(wid \<mapsto> i)) wid = Some i
           \<and> \<not> (\<exists>c \<in> set cmds. is_geometry_call c)
           \<and> last cmds = NotifySend ''Layout Error'' (''Display not found for window '' @ wid)"
proof -
  from assms(2) have mem: "layout \<in> set LAYOUT_SEQUENCE"
    and nf: "layout \<noteq> FULL_SCREEN" and nm: "layout \<noteq> MAXIMIZED"
    by (rule fractional_layout)+
  from mem obtain i where i: "index_of LAYOUT_SEQUENCE layout = Some i"
    using index_of_None_iff [of LAYOUT_SEQUENCE layout] by (cases "index_of LAYOUT_SEQUENCE layout") auto
  let ?cmds = "(if window_geometry env wid = None then [GetWindowGeometry wid]
                else [GetWindowGeometry wid, Xrandr, Xrandr])
               @ [NotifySend ''Layout Error'' (''Display not found for window '' @ wid)]"
  have "apply_layout cfg env layout (Some wid) ws = (ws(wid \<mapsto> i), ?cmds, None)"
    using assms(1) nf nm i no_display_when_none_reported [OF assms(3,4), of wid]
    by (simp add: apply_layout_def)
  moreover have "\<not> (\<exists>c \<in> set ?cmds. is_geometry_call c)"
    by simp
  moreover have "last ?cmds = NotifySend ''Layout Error'' (''Display not found for window '' @ wid)"
    by simp
  ultimately show ?thesis using i by (intro exI [of _ i] exI [of _ ?cmds]) simp
qed

theorem apply_layout_no_display_keeps_state_witness:
  "''0x3e00004'' \<noteq> []
   \<and> map_of LAYOUT_GEOMETRY CELL_33_CENTER_CENTER = Some (f_1_3, f_1_3, f_1_3, f_1_3)
   \<and> index_of LAYOUT_SEQUENCE CELL_33_CENTER_CENTER = Some 25
   \<and> apply_layout default_config
        \<lparr>window_focus = ''0x3e00004'', window_geometry = [''0x3e00004'' \<mapsto> (100, 200)],
         xrandr_first = [], xrandr_second = []\<rparr>
        CELL_33_CENTER_CENTER (Some ''0x3e00004'') [''0x3e00004'' \<mapsto> 1]
      = ([''0x3e00004'' \<mapsto> 25],
         [GetWindowGeometry ''0x3e00004'', Xrandr, Xrandr,
          NotifySend ''Layout Error'' ''Display not found for window 0x3e00004''],
         None)"
proof -
  let ?env = "\<lparr>window_focus = ''0x3e00004'', window_geometry = [''0x3e00004'' \<mapsto> (100::nat, 200::nat)],
         xrandr_first = [], xrandr_second = []\<rparr>"
  have w: "''0x3e00004'' \<noteq> []" by simp
  have g: "map_of LAYOUT_GEOMETRY CELL_33_CENTER_CENTER = Some (f_1_3, f_1_3, f_1_3, f_1_3)"
    by (simp add: LAYOUT_GEOMETRY_def)
  have x1: "xrandr_first ?env = []" and x2: "xrandr_second ?env = []" by simp_all
  have i: "index_of LAYOUT_SEQUENCE CELL_33_CENTER_CENTER = Some 25"
    by (simp add: LAYOUT_SEQUENCE_def)
  from apply_layout_no_display_keeps_state [OF w g x1 x2, of default_config "[''0x3e00004'' \<mapsto> 1]"]
  obtain j cmds where j: "index_of LAYOUT_SEQUENCE CELL_33_CENTER_CENTER = Some j"
    and a: "apply_layout default_config ?env CELL_33_CENTER_CENTER (Some ''0x3e00004'')
              [''0x3e00004'' \<mapsto> 1] = ([''0x3e00004'' \<mapsto> 1](''0x3e00004'' \<mapsto> j), cmds, None)"
    by blast
  have "apply_layout default_config ?env CELL_33_CENTER_CENTER (Some ''0x3e00004'')
              [''0x3e00004'' \<mapsto> 1]
      = ([''0x3e00004'' \<mapsto> 25],
         [GetWindowGeometry ''0x3e00004'', Xrandr, Xrandr,
          NotifySend ''Layout Error'' ''Display not found for window 0x3e00004''],
         None)"
    using i
    by (simp add: apply_layout_def get_display_for_window_def get_window_position_def
          get_connected_displays_def)
  with w g i show ?thesis by simp
qed

section \<open>Finding the display of a window\<close>

lemma display_loop_find:
  "display_loop ds x y = find (\<lambda>d. display_contains d x y) ds"
  by (induction ds) auto

text \<open>
  Claim C7. For every list of displays and every point, the loop of
  \<open>get_display_for_window\<close> returns the first display in list order whose rectangle
  contains the point under the half-open test \<open>x_start \<le> px < x_end\<close> and
  \<open>y_start \<le> py < y_end\<close>, and nothing when no display contains it. With the
  displays 1920x1080+0+0 and 1920x1080+1920+0, the point (1920, 0) is on the second.
\<close>

theorem display_loop_first_containing:
  "(display_loop ds px py = Some d \<longleftrightarrow>
      (\<exists>i < length ds. ds ! i = d
         \<and> (x_start d \<le> px \<and> px < x_end d \<and> y_start d \<le> py \<and> py < y_end d)
         \<and> (\<forall>j < i. \<not> (x_start (ds ! j) \<le> px \<and> px < x_end (ds ! j)
                          \<and> y_start (ds ! j) \<le> py \<and> py < y_end (ds ! j)))))
   \<and> (display_loop ds px py = None \<longleftrightarrow>
      (\<forall>d \<in> set ds. \<not> (x_start d \<le> px \<and> px < x_end d \<and> y_start d \<le> py \<and> py < y_end d)))
   \<and> display_loop (get_connected_displays [(1920, 1080, 0, 0), (1920, 1080, 1920, 0)]) 1920 0
       = Some \<lparr>x_start = 1920, x_end = 3840, y_start = 0, y_end = 1080,
               offset_left = 1920, offset_top = 0, width = 1920, height = 1080\<rparr>"
proof (intro conjI)
  show "display_loop ds px py = Some d \<longleftrightarrow>
      (\<exists>i < length ds. ds ! i = d
         \<and> (x_start d \<le> px \<and> px < x_end d \<and> y_start d \<le> py \<and> py < y_end d)
         \<and> (\<forall>j < i. \<not> (x_start (ds ! j) \<le> px \<and> px < x_end (ds ! j)
                          \<and> y_start (ds ! j) \<le> py \<and> py < y_end (ds ! j))))"
    unfolding display_loop_find find_Some_iff display_contains_def
    by (intro iffI; elim exE conjE; intro exI conjI; (assumption | simp))
next
  show "display_loop ds px py = None \<longleftrightarrow>
      (\<forall>d \<in> set ds. \<not> (x_start d \<le> px \<and> px < x_end d \<and> y_start d \<le> py \<and> py < y_end d))"
    unfolding display_loop_find find_None_iff display_contains_def by blast
next
  show "display_loop (get_connected_displays [(1920, 1080, 0, 0), (1920, 1080, 1920, 0)]) 1920 0
       = Some \<lparr>x_start = 1920, x_end = 3840, y_start = 0, y_end = 1080,
               offset_left = 1920, offset_top = 0, width = 1920, height = 1080\<rparr>"
    by (simp add: get_connected_displays_def display_contains_def)
qed

theorem display_loop_first_containing_witness:
  "display_loop (get_connected_displays [(800, 600, 0, 0), (1024, 768, 800, 0), (1024, 768, 800, 0)])
      800 599
     = Some \<lparr>x_start = 800, x_end = 1824, y_start = 0, y_end = 768,
             offset_left = 800, offset_top = 0, width = 1024, height = 768\<rparr>
   \<and> (\<exists>i < length (get_connected_displays
                     [(800, 600, 0, 0), (1024, 768, 800, 0), (1024, 768, 800, 0)]).
         get_connected_displays [(800, 600, 0, 0), (1024, 768, 800, 0), (1024, 768, 800, 0)] ! i
           = \<lparr>x_start = 800, x_end = 1824, y_start = 0, y_end = 768,
               offset_left = 800, offset_top = 0, width = 1024, height = 768\<rparr>
         \<and> (\<forall>j < i. \<not> (x_start (get_connected_displays
                     [(800, 600, 0, 0), (1024, 768, 800, 0), (1024, 768, 800, 0)] ! j) \<le> 800
                  \<and> 800 < x_end (get_connected_displays
                     [(800, 600, 0, 0), (1024, 768, 800, 0), (1024, 768, 800, 0)] ! j)
                  \<and> y_start (get_connected_displays
                     [(800, 600, 0, 0), (1024, 768, 800, 0), (1024, 768, 800, 0)] ! j) \<le> 599
                  \<and> 599 < y_end (get_connected_displays
                     [(800, 600, 0, 0), (1024, 768, 800, 0), (1024, 768, 800, 0)] ! j))))"
proof -
  let ?ds = "get_connected_displays [(800, 600, 0, 0), (1024, 768, 800, 0), (1024, 768, 800, 0)]"
  let ?d = "\<lparr>x_start = 800, x_end = 1824, y_start = 0, y_end = 768,
             offset_left = 800, offset_top = 0, width = 1024, height = 768\<rparr>"
  have l: "display_loop ?ds 800 599 = Some ?d"
    by (simp add: get_connected_displays_def display_contains_def)
  from display_loop_first_containing [of ?ds 800 599 ?d, THEN conjunct1] l
  have "\<exists>i < length ?ds. ?ds ! i = ?d
         \<and> (x_start ?d \<le> 800 \<and> 800 < x_end ?d \<and> y_start ?d \<le> 599 \<and> 599 < y_end ?d)
         \<and> (\<forall>j < i. \<not> (x_start (?ds ! j) \<le> 800 \<and> 800 < x_end (?ds ! j)
                          \<and> y_start (?ds ! j) \<le> 599 \<and> 599 < y_end (?ds ! j)))"
    by (rule iffD1)
  then have "\<exists>i < length ?ds. ?ds ! i = ?d
         \<and> (\<forall>j < i. \<not> (x_start (?ds ! j) \<le> 800 \<and> 800 < x_end (?ds ! j)
                          \<and> y_start (?ds ! j) \<le> 599 \<and> 599 < y_end (?ds ! j)))"
    by blast
  with l show ?thesis by (rule conjI)
qed

text \<open>
  Claim C4 says that \<open>get_display_for_window\<close> returns a display whenever at least one
  is reported, falling back to the first one also when the position of the window
  could not be determined. The function returns \<open>None\<close> as soon as the position is
  unknown (\<open>if not pos: return None\<close>), before any display is looked at: with one
  display reported and no position, the result is \<open>None\<close>.
\<close>

theorem display_for_window_position_unknown_counterexample:
  "get_connected_displays [(1920, 1080, 0, 0)] \<noteq> []
   \<and> fst (get_display_for_window
            \<lparr>window_focus = ''0x2c00003'', window_geometry = Map.empty,
             xrandr_first = [(1920, 1080, 0, 0)], xrandr_second = [(1920, 1080, 0, 0)]\<rparr>
            ''0x2c00003'') = None"
  by (simp add: get_display_for_window_def get_window_position_def get_connected_displays_def)

text \<open>
  Claim C4, amended. When the position of the window is determined and at least one
  display is reported, \<open>get_display_for_window\<close> returns a display: the first one that
  contains the position, and the first reported display when none contains it. It
  returns \<open>None\<close> when the position could not be determined, and when no display is
  reported.
\<close>

theorem display_for_window_fallback:
  assumes "xrandr_first env = ms" and "xrandr_second env = ms"
  shows "(window_geometry env wid = Some p \<and> ms \<noteq> [] \<longrightarrow>
            (\<exists>d. fst (get_display_for_window env wid) = Some d
                 \<and> d \<in> set (get_connected_displays ms)
                 \<and> d = (case display_loop (get_connected_displays ms)
                                (int (fst p)) (int (snd p)) of
                          Some c \<Rightarrow> c
                        | None \<Rightarrow> hd (get_connected_displays ms))))
         \<and> (window_geometry env wid = None \<longrightarrow> fst (get_display_for_window env wid) = None)
         \<and> (ms = [] \<longrightarrow> fst (get_display_for_window env wid) = None)"
proof (intro conjI impI)
  assume a: "window_geometry env wid = Some p \<and> ms \<noteq> []"
  obtain x y where p: "p = (x, y)" by (cases p)
  from a obtain m rest where ms: "ms = m # rest" by (cases ms) auto
  let ?ds = "get_connected_displays ms"
  have pos: "get_window_position env wid = Some (int x, int y)"
    using a p by (simp add: get_window_position_def)
  show "\<exists>d. fst (get_display_for_window env wid) = Some d
                 \<and> d \<in> set ?ds
                 \<and> d = (case display_loop ?ds (int (fst p)) (int (snd p)) of
                          Some c \<Rightarrow> c
                        | None \<Rightarrow> hd ?ds)"
  proof (cases "display_loop ?ds (int x) (int y)")
    case None
    have ne: "?ds \<noteq> []" using ms by (simp add: get_connected_displays_def)
    then obtain d0 ds0 where ds: "?ds = d0 # ds0" by (cases ?ds) auto
    have "fst (get_display_for_window env wid) = Some d0"
      using pos None ds assms by (simp add: get_display_for_window_def)
    with None ds p show ?thesis by simp
  next
    case (Some c)
    then have "c \<in> set ?ds"
      by (simp add: display_loop_find find_Some_iff) (metis nth_mem)
    moreover have "fst (get_display_for_window env wid) = Some c"
      using pos Some assms by (simp add: get_display_for_window_def)
    ultimately show ?thesis using Some p by simp
  qed
next
  assume "window_geometry env wid = None"
  then show "fst (get_display_for_window env wid) = None"
    by (simp add: get_display_for_window_def get_window_position_def)
next
  assume "ms = []"
  with assms show "fst (get_display_for_window env wid) = None"
    by (simp add: get_display_for_window_def get_window_position_def get_connected_displays_def
             split: option.split prod.split)
qed

theorem display_for_window_fallback_witness:
  "fst (get_display_for_window
          \<lparr>window_focus = ''0x2c00003'', window_geometry = [''0x2c00003'' \<mapsto> (5000, 10)],
           xrandr_first = [(1920, 1080, 0, 0), (1280, 1024, 1920, 0)],
           xrandr_second = [(1920, 1080, 0, 0), (1280, 1024, 1920, 0)]\<rparr>
          ''0x2c00003'')
     = Some \<lparr>x_start = 0, x_end = 1920, y_start = 0, y_end = 1080,
             offset_left = 0, offset_top = 0, width = 1920, height = 1080\<rparr>
   \<and> fst (get_display_for_window
          \<lparr>window_focus = ''0x2c00003'', window_geometry = [''0x2c00003'' \<mapsto> (5000, 10)],
           xrandr_first = [(1920, 1080, 0, 0), (1280, 1024, 1920, 0)],
           xrandr_second = [(1920, 1080, 0, 0), (1280, 1024, 1920, 0)]\<rparr>
          ''0x2c00004'') = None"
proof -
  let ?ms = "[(1920, 1080, 0, 0), (1280, 1024, 1920, 0)] :: (nat \<times> nat \<times> nat \<times> nat) list"
  let ?env = "\<lparr>window_focus = ''0x2c00003'', window_geometry = [''0x2c00003'' \<mapsto> (5000::nat, 10::nat)],
           xrandr_first = ?ms, xrandr_second = ?ms\<rparr>"
  have x1: "xrandr_first ?env = ?ms" and x2: "xrandr_second ?env = ?ms" by simp_all
  have g: "window_geometry ?env ''0x2c00003'' = Some (5000, 10) \<and> ?ms \<noteq> []" by simp
  have n: "window_geometry ?env ''0x2c00004'' = None" by simp
  have l: "display_loop (get_connected_displays ?ms) (int (fst (5000::nat, 10::nat)))
             (int (snd (5000::nat, 10::nat))) = None"
    by (simp add: get_connected_displays_def display_contains_def)
  have h: "hd (get_connected_displays ?ms)
            = \<lparr>x_start = 0, x_end = 1920, y_start = 0, y_end = 1080,
               offset_left = 0, offset_top = 0, width = 1920, height = 1080\<rparr>"
    by (simp add: get_connected_displays_def)
  note t = display_for_window_fallback [OF x1 x2]
  from t [of "''0x2c00003''" "(5000, 10)", THEN conjunct1, rule_format, OF g]
  have a: "fst (get_display_for_window ?env ''0x2c00003'')
            = Some \<lparr>x_start = 0, x_end = 1920, y_start = 0, y_end = 1080,
               offset_left = 0, offset_top = 0, width = 1920, height = 1080\<rparr>"
    unfolding l h by auto
  from t [of "''0x2c00004''" "(0, 0)", THEN conjunct2, THEN conjunct1, rule_format, OF n]
  have b: "fst (get_display_for_window ?env ''0x2c00004'') = None" .
  from a b show ?thesis by (rule conjI)
qed

section \<open>Directional snapping\<close>

lemma next_layout_range:
  assumes "next_layout L d = Some t"
  shows "t \<in> {COL_50_LEFT, COL_50_RIGHT, ROW_50_TOP, ROW_50_BOTTOM,
              CELL_50_LEFT_TOP, CELL_50_RIGHT_TOP, CELL_50_LEFT_BOTTOM, CELL_50_RIGHT_BOTTOM}"
proof (cases "map_of LAYOUT_TRANSITIONS (L, d)")
  case None
  then have "next_layout L d = map_of DEFAULT_TRANSITIONS d"
    by (rule next_layout_no_rule)
  with assms have "map_of DEFAULT_TRANSITIONS d = Some t" by simp
  then show ?thesis
    by (auto simp: default_lookup split: if_splits)
next
  case (Some u)
  then have "next_layout L d = Some u"
    by (rule next_layout_rule)
  with assms have "u = t" by simp
  with Some show ?thesis
    by (auto simp: transitions_lookup split: if_splits)
qed

lemma snap_layout_indices:
  "index_of LAYOUT_SEQUENCE COL_50_LEFT = Some 3"
  "index_of LAYOUT_SEQUENCE COL_50_RIGHT = Some 4"
  "index_of LAYOUT_SEQUENCE ROW_50_TOP = Some 10"
  "index_of LAYOUT_SEQUENCE ROW_50_BOTTOM = Some 11"
  "index_of LAYOUT_SEQUENCE CELL_50_LEFT_TOP = Some 17"
  "index_of LAYOUT_SEQUENCE CELL_50_LEFT_BOTTOM = Some 18"
  "index_of LAYOUT_SEQUENCE CELL_50_RIGHT_TOP = Some 19"
  "index_of LAYOUT_SEQUENCE CELL_50_RIGHT_BOTTOM = Some 20"
  by (simp_all add: LAYOUT_SEQUENCE_def)

lemma snap_layout_index:
  assumes "t \<in> {COL_50_LEFT, COL_50_RIGHT, ROW_50_TOP, ROW_50_BOTTOM,
              CELL_50_LEFT_TOP, CELL_50_RIGHT_TOP, CELL_50_LEFT_BOTTOM, CELL_50_RIGHT_BOTTOM}"
  shows "\<exists>i. index_of LAYOUT_SEQUENCE t = Some i \<and> i \<in> {3, 4, 10, 11, 17, 18, 19, 20}"
  using assms
  by (elim insertE emptyE) (simp_all only: snap_layout_indices, simp_all)

lemma snap_index_layout:
  assumes "i \<in> {3, 4, 10, 11, 17, 18, 19, 20 :: nat}"
  shows "i < length LAYOUT_SEQUENCE
         \<and> LAYOUT_SEQUENCE ! i \<in> {COL_50_LEFT, COL_50_RIGHT, ROW_50_TOP, ROW_50_BOTTOM,
              CELL_50_LEFT_TOP, CELL_50_RIGHT_TOP, CELL_50_LEFT_BOTTOM, CELL_50_RIGHT_BOTTOM}"
  using assms by (auto simp: LAYOUT_SEQUENCE_def)

lemma modify_layout_state:
  "fst (modify_layout cfg env d ws) =
     (case get_active_window_id env of
        None \<Rightarrow> ws
      | Some w \<Rightarrow>
          (case resolve_layout ws w d of
             Inr (Some new_layout) \<Rightarrow> fst (apply_layout cfg env new_layout (Some w) ws)
           | Inr None \<Rightarrow> ws
           | Inl err \<Rightarrow> ws))"
  by (simp add: modify_layout_def split: option.split sum.split prod.split)

lemma modify_layout_invariant:
  assumes "\<forall>w i. ws w = Some i \<longrightarrow> i \<in> {3, 4, 10, 11, 17, 18, 19, 20}"
  shows "\<forall>w i. fst (modify_layout cfg env d ws) w = Some i
               \<longrightarrow> i \<in> {3, 4, 10, 11, 17, 18, 19, 20}"
proof (cases "get_active_window_id env")
  case None
  with assms show ?thesis by (simp add: modify_layout_state)
next
  case (Some a)
  show ?thesis
  proof (cases "resolve_layout ws a d")
    case (Inl err)
    with Some assms show ?thesis by (simp add: modify_layout_state)
  next
    case (Inr r)
    show ?thesis
    proof (cases r)
      case None
      with Some Inr assms show ?thesis by (simp add: modify_layout_state)
    next
      case (Some t)
      from Inr Some obtain cur where "next_layout cur d = Some t"
        by (auto simp: resolve_layout_def split: sum.splits)
      then have "t \<in> {COL_50_LEFT, COL_50_RIGHT, ROW_50_TOP, ROW_50_BOTTOM,
              CELL_50_LEFT_TOP, CELL_50_RIGHT_TOP, CELL_50_LEFT_BOTTOM, CELL_50_RIGHT_BOTTOM}"
        by (rule next_layout_range)
      then have "\<exists>i. index_of LAYOUT_SEQUENCE t = Some i \<and> i \<in> {3, 4, 10, 11, 17, 18, 19, 20}"
        by (rule snap_layout_index)
      then obtain j where j: "index_of LAYOUT_SEQUENCE t = Some j"
        and jin: "j \<in> {3, 4, 10, 11, 17, 18, 19, 20}"
        by (elim exE conjE)
      have "fst (modify_layout cfg env d ws) = (if a = [] then ws else ws(a \<mapsto> j))"
        using \<open>get_active_window_id env = Some a\<close> Inr Some j
        by (simp add: modify_layout_state apply_layout_state)
      with assms jin show ?thesis by auto
    qed
  qed
qed

lemma modify_layouts_invariant:
  assumes "\<forall>w i. ws w = Some i \<longrightarrow> i \<in> {3, 4, 10, 11, 17, 18, 19, 20}"
  shows "\<forall>w i. modify_layouts ops ws w = Some i \<longrightarrow> i \<in> {3, 4, 10, 11, 17, 18, 19, 20}"
  using assms
proof (induction ops arbitrary: ws)
  case Nil
  then show ?case by simp
next
  case (Cons op ops)
  obtain cfg env d where op: "op = (cfg, env, d)" by (cases op)
  from Cons.prems have "\<forall>w i. fst (modify_layout cfg env d ws) w = Some i
               \<longrightarrow> i \<in> {3, 4, 10, 11, 17, 18, 19, 20}"
    by (rule modify_layout_invariant)
  then have "\<forall>w i. modify_layouts ops (fst (modify_layout cfg env d ws)) w = Some i
               \<longrightarrow> i \<in> {3, 4, 10, 11, 17, 18, 19, 20}"
    by (rule Cons.IH)
  with op show ?case by simp
qed

text \<open>
  Claim C10. Whatever the starting layout and the direction, the layout that
  \<open>modify_layout\<close> chooses is one of 50% Left, 50% Right, 50% Top, 50% Bottom,
  50% Top Left, 50% Top Right, 50% Bottom Left and 50% Bottom Right. Hence after any
  run of directional snaps from the initial (empty) window state, every recorded
  index is within \<open>LAYOUT_SEQUENCE\<close> and denotes one of these eight layouts: thirds
  and the special layouts are never reached by snapping.
\<close>

theorem snapping_reaches_only_halves_and_corners:
  "(next_layout L d = Some t \<longrightarrow>
      t \<in> {COL_50_LEFT, COL_50_RIGHT, ROW_50_TOP, ROW_50_BOTTOM,
           CELL_50_LEFT_TOP, CELL_50_RIGHT_TOP, CELL_50_LEFT_BOTTOM, CELL_50_RIGHT_BOTTOM})
   \<and> (modify_layouts ops Map.empty w = Some i \<longrightarrow>
        i < length LAYOUT_SEQUENCE
        \<and> LAYOUT_SEQUENCE ! i \<in>
            {COL_50_LEFT, COL_50_RIGHT, ROW_50_TOP, ROW_50_BOTTOM,
             CELL_50_LEFT_TOP, CELL_50_RIGHT_TOP, CELL_50_LEFT_BOTTOM, CELL_50_RIGHT_BOTTOM})"
proof (rule conjI; rule impI)
  assume "next_layout L d = Some t"
  then show "t \<in> {COL_50_LEFT, COL_50_RIGHT, ROW_50_TOP, ROW_50_BOTTOM,
           CELL_50_LEFT_TOP, CELL_50_RIGHT_TOP, CELL_50_LEFT_BOTTOM, CELL_50_RIGHT_BOTTOM}"
    by (rule next_layout_range)
next
  assume r: "modify_layouts ops Map.empty w = Some i"
  have "\<forall>w i. (Map.empty :: window_state) w = Some i \<longrightarrow> i \<in> {3, 4, 10, 11, 17, 18, 19, 20}"
    by simp
  then have "\<forall>w i. modify_layouts ops Map.empty w = Some i
               \<longrightarrow> i \<in> {3, 4, 10, 11, 17, 18, 19, 20}"
    by (rule modify_layouts_invariant)
  with r have "i \<in> {3, 4, 10, 11, 17, 18, 19, 20}" by blast
  then show "i < length LAYOUT_SEQUENCE
        \<and> LAYOUT_SEQUENCE ! i \<in>
            {COL_50_LEFT, COL_50_RIGHT, ROW_50_TOP, ROW_50_BOTTOM,
             CELL_50_LEFT_TOP, CELL_50_RIGHT_TOP, CELL_50_LEFT_BOTTOM, CELL_50_RIGHT_BOTTOM}"
    by (rule snap_index_layout)
qed

theorem snapping_reaches_only_halves_and_corners_witness:
  "next_layout ROW_50_TOP ''right'' = Some CELL_50_RIGHT_TOP
   \<and> CELL_50_RIGHT_TOP \<in> {COL_50_LEFT, COL_50_RIGHT, ROW_50_TOP, ROW_50_BOTTOM,
           CELL_50_LEFT_TOP, CELL_50_RIGHT_TOP, CELL_50_LEFT_BOTTOM, CELL_50_RIGHT_BOTTOM}
   \<and> modify_layouts
         [(default_config,
           \<lparr>window_focus = ''0x1'', window_geometry = [''0x1'' \<mapsto> (10, 10)],
            xrandr_first = [(1920, 1080, 0, 0)], xrandr_second = [(1920, 1080, 0, 0)]\<rparr>,
           ''left''),
          (default_config,
           \<lparr>window_focus = ''0x1'', window_geometry = [''0x1'' \<mapsto> (30, 30)],
            xrandr_first = [(1920, 1080, 0, 0)], xrandr_second = [(1920, 1080, 0, 0)]\<rparr>,
           ''up'')]
         Map.empty ''0x1'' = Some 17
   \<and> 17 < length LAYOUT_SEQUENCE
   \<and> LAYOUT_SEQUENCE ! 17 \<in> {COL_50_LEFT, COL_50_RIGHT, ROW_50_TOP, ROW_50_BOTTOM,
           CELL_50_LEFT_TOP, CELL_50_RIGHT_TOP, CELL_50_LEFT_BOTTOM, CELL_50_RIGHT_BOTTOM}"
proof -
  let ?e1 = "\<lparr>window_focus = ''0x1'', window_geometry = [''0x1'' \<mapsto> (10::nat, 10::nat)],
            xrandr_first = [(1920, 1080, 0, 0)], xrandr_second = [(1920, 1080, 0, 0)]\<rparr>"
  let ?e2 = "\<lparr>window_focus = ''0x1'', window_geometry = [''0x1'' \<mapsto> (30::nat, 30::nat)],
            xrandr_first = [(1920, 1080, 0, 0)], xrandr_second = [(1920, 1080, 0, 0)]\<rparr>"
  let ?ops = "[(default_config, ?e1, ''left''), (default_config, ?e2, ''up'')]"
  have n: "next_layout ROW_50_TOP ''right'' = Some CELL_50_RIGHT_TOP"
    by (simp add: next_layout_rule transitions_lookup)
  have r1: "resolve_layout Map.empty ''0x1'' ''left'' = Inr (Some COL_50_LEFT)"
    by (simp add: resolve_layout_def current_layout_none next_layout_no_rule
          transitions_lookup default_lookup)
  have s1: "fst (modify_layout default_config ?e1 ''left'' Map.empty) = [''0x1'' \<mapsto> 3]"
    by (simp add: modify_layout_state get_active_window_id_def r1 apply_layout_state
          snap_layout_indices)
  have c2: "current_layout [''0x1'' \<mapsto> 3] ''0x1'' = Inr COL_50_LEFT"
    by (simp add: current_layout_def LAYOUT_SEQUENCE_def)
  have r2: "resolve_layout [''0x1'' \<mapsto> 3] ''0x1'' ''up'' = Inr (Some CELL_50_LEFT_TOP)"
    by (simp add: resolve_layout_def c2 next_layout_rule transitions_lookup)
  have s2: "fst (modify_layout default_config ?e2 ''up'' [''0x1'' \<mapsto> 3]) = [''0x1'' \<mapsto> 17]"
    by (simp add: modify_layout_state get_active_window_id_def r2 apply_layout_state
          snap_layout_indices)
  have m: "modify_layouts ?ops Map.empty ''0x1'' = Some 17"
    by (simp add: s1 s2)
  note t = snapping_reaches_only_halves_and_corners
  note a = t [of ROW_50_TOP "''right''" CELL_50_RIGHT_TOP, THEN conjunct1, rule_format, OF n]
  note b = t [of _ _ _ ?ops "''0x1''" 17, THEN conjunct2, rule_format, OF m]
  from n a m b show ?thesis by (intro conjI) simp_all
qed

end
